theory Spec2Isabelle
  imports Main
begin

section \<open>Data model\<close>

text \<open>
  The TypeScript module \<open>vs/editor/contrib/rename/rename.ts\<close> is embedded shallowly.
  Line and column numbers are JavaScript numbers that only ever hold small integers;
  they are modelled as \<open>int\<close>.
\<close>

record Position =
  lineNumber :: int
  column :: int

record Range =
  startLineNumber :: int
  startColumn :: int
  endLineNumber :: int
  endColumn :: int

record RenameLocation =
  loc_range :: Range
  loc_text :: string

text \<open>
  A resource text edit is opaque to the rename logic: it is only passed through to the
  bulk edit service.
\<close>

record ResourceTextEdit =
  resource :: string
  textEdits :: "(Range \<times> string) list"

record WorkspaceEdit =
  edits :: "ResourceTextEdit list option"
  rejectReason :: "string option"

record IWordAtPosition =
  word :: string
  wordStartColumn :: int
  wordEndColumn :: int

text \<open>
  Of the text model the rename logic uses the word lookup and (through the editor state
  snapshot) the version of the content.
\<close>

record ITextModel =
  getWordAtPosition :: "Position \<Rightarrow> IWordAtPosition option"
  getVersionId :: int

text \<open>
  A rejected promise or a thrown exception is a value. \<open>TypeError\<close> is what JavaScript
  raises when a property of \<open>undefined\<close> is read, \<open>IllegalArgument\<close> is the error built
  by \<open>illegalArgument(name)\<close>, and \<open>Thrown\<close> is any error raised by an external
  collaborator (a provider, the input widget, the bulk edit service).
\<close>

datatype error = TypeError string | IllegalArgument string | Thrown string

text \<open>
  A provider has the optional capability \<open>resolveRenameLocation\<close> and the required
  \<open>provideRenameEdits\<close>. Either call may throw, or produce no result
  (\<open>undefined\<close>/\<open>null\<close>, here \<open>None\<close>). The cancellation token is not modelled: nothing
  in this module ever cancels it.
\<close>

record RenameProvider =
  provider_resolveRenameLocation ::
    "(ITextModel \<Rightarrow> Position \<Rightarrow> error + RenameLocation option) option"
  provider_provideRenameEdits ::
    "ITextModel \<Rightarrow> Position \<Rightarrow> string \<Rightarrow> error + WorkspaceEdit option"

text \<open>
  Everything the module does to the outside world is recorded as an event, in the order
  in which it happens. Provider calls carry the index of the provider in the chain and
  the position and name they were invoked with.
\<close>

datatype message = ErrorMessage error | TextMessage string

datatype event =
    ResolveLocationCall nat Position
  | ProvideEditsCall nat Position string
  | ShowMessage message Position
  | NotifyInfo string
  | NotifyError string
  | InputVisibleSet bool
  | InputVisibleReset
  | GetInput Range string int int
  | EditorFocus
  | ShowWhile int
  | BulkEditApply WorkspaceEdit
  | AriaAlert string string string

section \<open>JavaScript helpers\<close>

text \<open>Truthiness of an optional string: \<open>undefined\<close> and the empty string are falsy.\<close>

definition truthy :: "string option \<Rightarrow> bool" where
  "truthy r = (case r of None \<Rightarrow> False | Some s \<Rightarrow> s \<noteq> [])"

text \<open>\<open>Array.prototype.join\<close> on an array of strings.\<close>

fun join :: "string \<Rightarrow> string list \<Rightarrow> string" where
  "join sep [] = []"
| "join sep [x] = x"
| "join sep (x # y # ys) = x @ sep @ join sep (y # ys)"

text \<open>
  Modelled from the spec: \<open>nls.localize\<close> (module \<open>vs/nls\<close>) is not part of the source
  at hand; the spec names the default reason \<open>No result.\<close>, which is the default
  message handed to \<open>localize\<close>, so \<open>localize\<close> yields its default message.
\<close>

definition localize :: "string \<Rightarrow> string \<Rightarrow> string" where
  "localize key msg = msg"

section \<open>RenameSkeleton\<close>

record RenameSkeleton =
  model :: ITextModel
  position :: Position
  provider :: "RenameProvider list"

text \<open>
  The constructor asks the registry for the ordered providers of the model; the registry
  is a parameter.
\<close>

definition newRenameSkeleton ::
  "(ITextModel \<Rightarrow> RenameProvider list) \<Rightarrow> ITextModel \<Rightarrow> Position \<Rightarrow> RenameSkeleton" where
  "newRenameSkeleton ordered m p = \<lparr>model = m, position = p, provider = ordered m\<rparr>"

definition hasProvider :: "RenameSkeleton \<Rightarrow> bool" where
  "hasProvider self = (length (provider self) > 0)"

text \<open>
  Modelled from the spec: the constructor of class \<open>Range\<close> (module
  \<open>vs/editor/common/core/range\<close>, not part of the source at hand). The spec gives a
  range as a start and an end position with the invariant start \<open>\<le>\<close> end; the
  constructor keeps the invariant by ordering its two end points.
\<close>

definition newRange :: "int \<Rightarrow> int \<Rightarrow> int \<Rightarrow> int \<Rightarrow> Range" where
  "newRange sl sc el ec =
     (if sl > el \<or> (sl = el \<and> sc > ec)
      then \<lparr>startLineNumber = el, startColumn = ec, endLineNumber = sl, endColumn = sc\<rparr>
      else \<lparr>startLineNumber = sl, startColumn = sc, endLineNumber = el, endColumn = ec\<rparr>)"

text \<open>
  Modelled from the spec: \<open>Range.lift\<close> (same module) builds a \<open>Range\<close> from a plain
  range, so the result has the invariant of the spec.
\<close>

definition Range_lift :: "Range \<Rightarrow> Range" where
  "Range_lift r = newRange (startLineNumber r) (startColumn r) (endLineNumber r) (endColumn r)"

text \<open>
  Modelled from the spec: \<open>getStartPosition\<close> (same module) is the start position of the
  range, which the spec calls \<open>resolvedRange.start\<close>.
\<close>

definition getStartPosition :: "Range \<Rightarrow> Position" where
  "getStartPosition r = \<lparr>lineNumber = startLineNumber r, column = startColumn r\<rparr>"

text \<open>
  Modelled from the spec: \<open>Range.isEmpty\<close> (same module); the spec asks for a selection
  that is non-empty, and a range is empty when its start and its end coincide.
\<close>

definition Range_isEmpty :: "Range \<Rightarrow> bool" where
  "Range_isEmpty r =
     (startLineNumber r = endLineNumber r \<and> startColumn r = endColumn r)"

text \<open>
  Modelled from the spec: \<open>Range.spansMultipleLines\<close> (same module); the spec asks for
  a selection that is single-line.
\<close>

definition Range_spansMultipleLines :: "Range \<Rightarrow> bool" where
  "Range_spansMultipleLines r = (endLineNumber r > startLineNumber r)"

text \<open>
  Modelled from the spec: \<open>Range.containsRange\<close> (same module); the spec asks for a
  selection that is fully contained within the resolved range: its lines lie within
  the lines of the range, and on the first and the last line of the range its columns
  do not reach beyond those of the range.
\<close>

definition Range_containsRange :: "Range \<Rightarrow> Range \<Rightarrow> bool" where
  "Range_containsRange r other =
     (if startLineNumber other < startLineNumber r \<or> endLineNumber other < startLineNumber r
      then False
      else if startLineNumber other > endLineNumber r \<or> endLineNumber other > endLineNumber r
      then False
      else if startLineNumber other = startLineNumber r \<and> startColumn other < startColumn r
      then False
      else if endLineNumber other = endLineNumber r \<and> endColumn other > endColumn r
      then False
      else True)"

text \<open>The word fallback of \<open>resolveRenameLocation\<close> (the block under \<open>if (!res)\<close>).\<close>

definition wordLocation :: "RenameSkeleton \<Rightarrow> RenameLocation option" where
  "wordLocation self =
     (case getWordAtPosition (model self) (position self) of
        None \<Rightarrow> None
      | Some w \<Rightarrow>
          Some \<lparr>loc_range =
                  newRange (lineNumber (position self)) (wordStartColumn w)
                    (lineNumber (position self)) (wordEndColumn w),
                loc_text = word w\<rparr>)"

text \<open>
  \<open>let [provider] = this._provider\<close> binds \<open>undefined\<close> on an empty chain, and reading
  \<open>provider.resolveRenameLocation\<close> then raises a TypeError, which rejects the promise.
\<close>

definition resolveRenameLocation ::
  "RenameSkeleton \<Rightarrow> (error + RenameLocation option) \<times> event list" where
  "resolveRenameLocation self =
     (case provider self of
        [] \<Rightarrow> (Inl (TypeError ''resolveRenameLocation''), [])
      | p # _ \<Rightarrow>
          (case provider_resolveRenameLocation p of
             None \<Rightarrow> (Inr (wordLocation self), [])
           | Some f \<Rightarrow>
               (case f (model self) (position self) of
                  Inl e \<Rightarrow> (Inl e, [ResolveLocationCall 0 (position self)])
                | Inr (Some res) \<Rightarrow> (Inr (Some res), [ResolveLocationCall 0 (position self)])
                | Inr None \<Rightarrow>
                    (Inr (wordLocation self), [ResolveLocationCall 0 (position self)]))))"

text \<open>
  \<open>provideRenameEdits(newName, i, rejects, position)\<close>. The parameter \<open>position\<close> is
  declared but the body passes \<open>this.position\<close> to the provider, and the recursive calls
  leave the parameter out, so it takes its default \<open>this.position\<close> again.
\<close>

function provideRenameEdits ::
  "RenameSkeleton \<Rightarrow> string \<Rightarrow> nat \<Rightarrow> string list \<Rightarrow> Position
     \<Rightarrow> (error + WorkspaceEdit) \<times> event list" where
  "provideRenameEdits self newName i rejects pos =
     (if i \<ge> length (provider self) then
        (Inr \<lparr>edits = None, rejectReason = Some (join [CHR 0x0A] rejects)\<rparr>, [])
      else
        (case provider_provideRenameEdits (provider self ! i) (model self) (position self) newName of
           Inl e \<Rightarrow> (Inl e, [ProvideEditsCall i (position self) newName])
         | Inr None \<Rightarrow>
             apsnd (Cons (ProvideEditsCall i (position self) newName))
               (provideRenameEdits self newName (i + 1)
                  (rejects @ [localize ''no result'' ''No result.'']) (position self))
         | Inr (Some result) \<Rightarrow>
             if truthy (rejectReason result) then
               apsnd (Cons (ProvideEditsCall i (position self) newName))
                 (provideRenameEdits self newName (i + 1)
                    (rejects @ [the (rejectReason result)]) (position self))
             else (Inr result, [ProvideEditsCall i (position self) newName])))"
  by pat_completeness auto
termination
  by (relation "measure (\<lambda>(self, newName, i, rejects, pos). length (provider self) - i)") auto

text \<open>The exported function \<open>rename\<close>: a fresh skeleton and the defaults of the parameters.\<close>

definition rename ::
  "(ITextModel \<Rightarrow> RenameProvider list) \<Rightarrow> ITextModel \<Rightarrow> Position \<Rightarrow> string
     \<Rightarrow> (error + WorkspaceEdit) \<times> event list" where
  "rename ordered m p newName =
     provideRenameEdits (newRenameSkeleton ordered m p) newName 0 [] p"

section \<open>RenameController\<close>

text \<open>
  Of the editor the controller reads the model, the cursor position, the selection and
  the scroll offsets.
\<close>

record ICodeEditor =
  getModel :: ITextModel
  getPosition :: Position
  getSelection :: Range
  getScrollLeft :: int
  getScrollTop :: int

text \<open>
  Modelled from the spec: class \<open>EditorState\<close> (module
  \<open>vs/editor/browser/core/editorState\<close>, not part of the source at hand). The spec
  describes the snapshot as a fingerprint of position, document content version,
  selection and scroll. The controller always asks for all four facets.
\<close>

record EditorState =
  state_position :: Position
  state_modelVersionId :: int
  state_selection :: Range
  state_scrollLeft :: int
  state_scrollTop :: int

text \<open>
  Modelled from the spec: the constructor of \<open>EditorState\<close> captures the four facets of
  the editor as they are at that moment.
\<close>

definition newEditorState :: "ICodeEditor \<Rightarrow> EditorState" where
  "newEditorState editor =
     \<lparr>state_position = getPosition editor,
      state_modelVersionId = getVersionId (getModel editor),
      state_selection = getSelection editor,
      state_scrollLeft = getScrollLeft editor,
      state_scrollTop = getScrollTop editor\<rparr>"

text \<open>
  Modelled from the spec: \<open>EditorState.validate\<close> compares the current editor state
  against the snapshot, on the same four facets; the snapshot is used only for this
  equality comparison.
\<close>

definition validate :: "EditorState \<Rightarrow> ICodeEditor \<Rightarrow> bool" where
  "validate state editor = (state = newEditorState editor)"

text \<open>
  Modelled from the spec: \<open>IContextKey.set\<close> (module
  \<open>vs/platform/contextkey/common/contextkey\<close>, not part of the source at hand) stores
  a value in the flag.
\<close>

definition contextKeySet :: "bool \<Rightarrow> bool \<Rightarrow> bool" where
  "contextKeySet v key = v"

text \<open>
  Modelled from the spec: \<open>IContextKey.reset\<close> (same module) clears the flag, that is,
  restores the default value \<open>false\<close> that \<open>CONTEXT_RENAME_INPUT_VISIBLE\<close> is declared
  with.
\<close>

definition contextKeyReset :: "bool \<Rightarrow> bool" where
  "contextKeyReset key = False"

text \<open>
  The promise that the input widget returns is fulfilled with a new name or with a
  boolean (cancelled; the boolean says whether to give the focus back to the editor),
  or it is rejected. A call of \<open>getInput\<close> that throws before it returns a promise is
  not among these: see the environment below. The bulk edit service resolves to a
  result that may carry \<open>ariaSummary\<close>, or it fails.
\<close>

datatype input_result = NewName string | FocusFlag bool | InputFailed error

datatype apply_result = Applied "string option" | ApplyFailed error

text \<open>
  \<open>run\<close> is suspended three times: while the first provider resolves the location,
  while the input widget is open and while the providers compute the edits. The editor
  may change during each suspension, so the environment of a session holds the editor as
  it is when \<open>run\<close> starts and as it is after each suspension, together with the
  registry, the input widget and the bulk edit service. The call of \<open>getInput\<close> either
  throws synchronously (\<open>Inl\<close>) or returns a promise, given by the way it is settled
  (\<open>Inr\<close>); \<open>run\<close> calls it outside of any \<open>try\<close>, so the two differ.
\<close>

record Environment =
  ordered :: "ITextModel \<Rightarrow> RenameProvider list"
  editorAtStart :: ICodeEditor
  editorAfterLocate :: ICodeEditor
  editorAfterInput :: ICodeEditor
  editorAfterResolve :: ICodeEditor
  getInput :: "Range \<Rightarrow> string \<Rightarrow> int \<Rightarrow> int \<Rightarrow> error + input_result"
  bulkEditApply :: "WorkspaceEdit \<Rightarrow> apply_result"

text \<open>Lines 151 to 158 of \<open>run\<close>: the part of the symbol text that is pre-selected.\<close>

definition selectionOffsets :: "RenameLocation \<Rightarrow> Range \<Rightarrow> int \<times> int" where
  "selectionOffsets loc selection =
     (if \<not> Range_isEmpty selection \<and> \<not> Range_spansMultipleLines selection
         \<and> Range_containsRange (loc_range loc) selection
      then (max 0 (startColumn selection - startColumn (loc_range loc)),
            min (endColumn (loc_range loc)) (endColumn selection) - startColumn (loc_range loc))
      else (0, int (length (loc_text loc))))"

text \<open>
  The callback on the result of \<open>provideRenameEdits\<close> (lines 175 to 191). A failure of
  the bulk edit service is raised inside this callback, so the error handler that
  follows it in the same \<open>then\<close> does not see it.
\<close>

definition onRenameResult ::
  "Environment \<Rightarrow> RenameLocation \<Rightarrow> string \<Rightarrow> EditorState \<Rightarrow> WorkspaceEdit
     \<Rightarrow> (error + unit) \<times> event list" where
  "onRenameResult env loc newName state result =
     (if truthy (rejectReason result) then
        (if validate state (editorAfterResolve env) then
           (Inr (), [ShowMessage (TextMessage (the (rejectReason result)))
                       (getPosition (editorAfterResolve env))])
         else (Inr (), [NotifyInfo (the (rejectReason result))]))
      else
        (case bulkEditApply env result of
           ApplyFailed err \<Rightarrow> (Inl err, [BulkEditApply result])
         | Applied ariaSummary \<Rightarrow>
             (Inr (),
              BulkEditApply result #
                (if truthy ariaSummary then [AriaAlert (loc_text loc) newName (the ariaSummary)]
                 else []))))"

text \<open>
  \<open>provideRenameEdits\<close> runs up to its first \<open>await\<close> when it is called, so the first
  provider has been invoked when \<open>showWhile\<close> is called on the pending operation.
\<close>

definition withProgress :: "event list \<Rightarrow> event list" where
  "withProgress calls = (case calls of [] \<Rightarrow> [ShowWhile 250] | c # cs \<Rightarrow> c # ShowWhile 250 # cs)"

text \<open>
  The two callbacks that \<open>run\<close> attaches with \<open>then\<close> to the promise of the input
  widget (lines 161 to 203), given the value of the context key while the widget is
  open. They run when that promise is settled; both begin with the reset of the key.
\<close>

definition onInput ::
  "Environment \<Rightarrow> RenameSkeleton \<Rightarrow> RenameLocation \<Rightarrow> bool \<Rightarrow> input_result
     \<Rightarrow> (error + unit) \<times> bool \<times> event list" where
  "onInput env skeleton loc visible newNameOrFocusFlag =
     (case newNameOrFocusFlag of
        InputFailed err \<Rightarrow> (Inl err, contextKeyReset visible, [InputVisibleReset])
      | FocusFlag flag \<Rightarrow>
          (Inr (), contextKeyReset visible,
           InputVisibleReset # (if flag then [EditorFocus] else []))
      | NewName newName \<Rightarrow>
          (let state = newEditorState (editorAfterInput env) in
           case provideRenameEdits skeleton newName 0 []
                  (getStartPosition (Range_lift (loc_range loc))) of
             (Inl err, calls) \<Rightarrow>
               (Inl err, contextKeyReset visible,
                [InputVisibleReset, EditorFocus] @ withProgress calls
                  @ [NotifyError (localize ''rename.failed'' ''Rename failed to execute.'')])
           | (Inr result, calls) \<Rightarrow>
               (case onRenameResult env loc newName state result of
                  (outcome, evs) \<Rightarrow>
                    (outcome, contextKeyReset visible,
                     [InputVisibleReset, EditorFocus] @ withProgress calls @ evs))))"

text \<open>
  \<open>RenameController.run\<close>, from the value of the context key before the call to the
  outcome of the returned promise, the value of the context key once the promise is
  settled, and the events in between. \<open>run\<close> is an \<open>async\<close> function: when the call
  of \<open>getInput\<close> (line 161) throws, no callback has been attached, the promise of \<open>run\<close>
  is rejected with that error, and the context key keeps the value set in line 160.
\<close>

definition run :: "Environment \<Rightarrow> bool \<Rightarrow> (error + unit) \<times> bool \<times> event list" where
  "run env visible =
     (let pos = getPosition (editorAtStart env);
          skeleton = newRenameSkeleton (ordered env) (getModel (editorAtStart env)) pos
      in if \<not> hasProvider skeleton then (Inr (), visible, [])
         else
           (case resolveRenameLocation skeleton of
              (Inl e, calls) \<Rightarrow> (Inr (), visible, calls @ [ShowMessage (ErrorMessage e) pos])
            | (Inr None, calls) \<Rightarrow> (Inr (), visible, calls)
            | (Inr (Some loc), calls) \<Rightarrow>
                (let selection = getSelection (editorAfterLocate env);
                     selectionStart = fst (selectionOffsets loc selection);
                     selectionEnd = snd (selectionOffsets loc selection)
                 in case getInput env (loc_range loc) (loc_text loc) selectionStart selectionEnd of
                      Inl err \<Rightarrow>
                        (Inl err, contextKeySet True visible,
                         calls
                           @ [InputVisibleSet True,
                              GetInput (loc_range loc) (loc_text loc) selectionStart selectionEnd])
                    | Inr newNameOrFocusFlag \<Rightarrow>
                        (case onInput env skeleton loc (contextKeySet True visible)
                                newNameOrFocusFlag of
                           (outcome, visible', evs) \<Rightarrow>
                             (outcome, visible',
                              calls
                                @ [InputVisibleSet True,
                                   GetInput (loc_range loc) (loc_text loc)
                                     selectionStart selectionEnd]
                                @ evs)))))"

section \<open>The command \<open>_executeDocumentRenameProvider\<close>\<close>

text \<open>
  The command receives its arguments untyped. \<open>args\<close> is an object; a property that is
  missing reads as \<open>undefined\<close>.
\<close>

datatype js_value =
  JSString string | JSNumber int | JSBoolean bool | JSUndefined | JSNull | JSObject

record CommandArgs =
  args_newName :: js_value

definition executeDocumentRenameProvider ::
  "(ITextModel \<Rightarrow> RenameProvider list) \<Rightarrow> ITextModel \<Rightarrow> Position \<Rightarrow> CommandArgs
     \<Rightarrow> (error + WorkspaceEdit) \<times> event list" where
  "executeDocumentRenameProvider reg m p args =
     (case args_newName args of
        JSString s \<Rightarrow> rename reg m p s
      | _ \<Rightarrow> (Inl (IllegalArgument ''newName''), []))"

section \<open>Notions used to state the properties\<close>

text \<open>
  What the provider at index \<open>i\<close> answers to the call that \<open>provideRenameEdits\<close> makes,
  and the kinds of answer: a result without a (truthy) reject reason, a structured
  rejection (no result object, or a result with a non-empty reject reason) and an
  exception. The spec counts both a rejection and an exception as a failure.
\<close>

definition respond :: "RenameSkeleton \<Rightarrow> string \<Rightarrow> nat \<Rightarrow> error + WorkspaceEdit option" where
  "respond self newName i =
     provider_provideRenameEdits (provider self ! i) (model self) (position self) newName"

definition succeeded :: "error + WorkspaceEdit option \<Rightarrow> bool" where
  "succeeded r = (case r of Inr (Some w) \<Rightarrow> \<not> truthy (rejectReason w) | _ \<Rightarrow> False)"

definition declined :: "error + WorkspaceEdit option \<Rightarrow> bool" where
  "declined r =
     (case r of Inr None \<Rightarrow> True | Inr (Some w) \<Rightarrow> truthy (rejectReason w) | Inl e \<Rightarrow> False)"

definition threw :: "error + WorkspaceEdit option \<Rightarrow> bool" where
  "threw r = (case r of Inl e \<Rightarrow> True | Inr x \<Rightarrow> False)"

definition failed :: "error + WorkspaceEdit option \<Rightarrow> bool" where
  "failed r = (threw r \<or> declined r)"

text \<open>The reason that a rejection contributes, with the default for a missing result.\<close>

definition reasonOf :: "error + WorkspaceEdit option \<Rightarrow> string" where
  "reasonOf r = (case r of Inr (Some w) \<Rightarrow> the (rejectReason w) | _ \<Rightarrow> ''No result.'')"

text \<open>The calls to the providers \<open>i\<close>, ..., \<open>k - 1\<close>, in this order.\<close>

definition callsFromTo :: "RenameSkeleton \<Rightarrow> string \<Rightarrow> nat \<Rightarrow> nat \<Rightarrow> event list" where
  "callsFromTo self newName i k =
     map (\<lambda>j. ProvideEditsCall j (position self) newName) [i..<k]"

text \<open>
  What the provider at index \<open>i\<close> of the registry's ordered chain for a document
  answers when it is asked for the edits of a rename at a position.
\<close>

definition registryAnswer ::
  "(ITextModel \<Rightarrow> RenameProvider list) \<Rightarrow> ITextModel \<Rightarrow> Position \<Rightarrow> string \<Rightarrow> nat
     \<Rightarrow> error + WorkspaceEdit option" where
  "registryAnswer reg m p newName i = provider_provideRenameEdits (reg m ! i) m p newName"

text \<open>Whether the first provider leaves the rename location to the word lookup.\<close>

definition noLocationOverride :: "RenameSkeleton \<Rightarrow> RenameProvider \<Rightarrow> bool" where
  "noLocationOverride self p =
     (case provider_resolveRenameLocation p of
        None \<Rightarrow> True
      | Some f \<Rightarrow> f (model self) (position self) = Inr None)"

definition insideWord :: "Position \<Rightarrow> IWordAtPosition \<Rightarrow> bool" where
  "insideWord pos w = (wordStartColumn w \<le> column pos \<and> column pos \<le> wordEndColumn w)"

text \<open>
  The four facets of the editor state, compared one by one between two moments.
\<close>

definition facetsChanged :: "ICodeEditor \<Rightarrow> ICodeEditor \<Rightarrow> bool" where
  "facetsChanged before after =
     (getPosition before \<noteq> getPosition after
      \<or> getVersionId (getModel before) \<noteq> getVersionId (getModel after)
      \<or> getSelection before \<noteq> getSelection after
      \<or> getScrollLeft before \<noteq> getScrollLeft after
      \<or> getScrollTop before \<noteq> getScrollTop after)"

text \<open>
  The value of the context key after a sequence of events, and the events that touch
  the context key or open the input widget.
\<close>

fun flagAfter :: "bool \<Rightarrow> event list \<Rightarrow> bool" where
  "flagAfter v [] = v"
| "flagAfter v (InputVisibleSet b # es) = flagAfter b es"
| "flagAfter v (InputVisibleReset # es) = flagAfter False es"
| "flagAfter v (e # es) = flagAfter v es"

fun inputEvent :: "event \<Rightarrow> bool" where
  "inputEvent (InputVisibleSet b) = True"
| "inputEvent InputVisibleReset = True"
| "inputEvent (GetInput r t s e) = True"
| "inputEvent ev = False"

fun uiEvent :: "event \<Rightarrow> bool" where
  "uiEvent (ResolveLocationCall i p) = False"
| "uiEvent (ProvideEditsCall i p n) = False"
| "uiEvent ev = True"

fun isString :: "js_value \<Rightarrow> bool" where
  "isString (JSString s) = True"
| "isString v = False"

text \<open>
  The skeleton that \<open>run\<close> builds for a session, and the offsets that it computes from
  the selection which the editor has once the location is resolved.
\<close>

definition sessionSkeleton :: "Environment \<Rightarrow> RenameSkeleton" where
  "sessionSkeleton env =
     newRenameSkeleton (ordered env) (getModel (editorAtStart env))
       (getPosition (editorAtStart env))"

definition prefill :: "Environment \<Rightarrow> RenameLocation \<Rightarrow> int \<times> int" where
  "prefill env loc = selectionOffsets loc (getSelection (editorAfterLocate env))"

text \<open>
  Events that tell the user something, and events that apply an edit.
\<close>

fun notice :: "event \<Rightarrow> bool" where
  "notice (ShowMessage m p) = True"
| "notice (NotifyInfo s) = True"
| "notice (NotifyError s) = True"
| "notice (AriaAlert a b c) = True"
| "notice ev = False"

fun applies :: "event \<Rightarrow> bool" where
  "applies (BulkEditApply w) = True"
| "applies ev = False"

text \<open>
  A session is in the state AwaitingInput from the moment the context key is set to
  true until the input widget has answered: the last event is then the setting of the
  key or the call of the widget.
\<close>

definition awaitingInput :: "event list \<Rightarrow> bool" where
  "awaitingInput es =
     (es \<noteq> [] \<and>
      (case last es of InputVisibleSet b \<Rightarrow> b | GetInput r t s e \<Rightarrow> True | _ \<Rightarrow> False))"

section \<open>Sample documents, providers and sessions\<close>

text \<open>
  A one-line document whose columns 5 to 12 hold the word \<open>fooBarX\<close>, and providers
  that succeed, reject with a reason, return nothing, or throw.
\<close>

definition sampleModel :: ITextModel where
  "sampleModel =
     \<lparr>getWordAtPosition =
        (\<lambda>p. if lineNumber p = 1 \<and> 5 \<le> column p \<and> column p \<le> 12
             then Some \<lparr>word = ''fooBarX'', wordStartColumn = 5, wordEndColumn = 12\<rparr>
             else None),
      getVersionId = 1\<rparr>"

definition samplePosition :: Position where
  "samplePosition = \<lparr>lineNumber = 1, column = 7\<rparr>"

definition sampleRange :: Range where
  "sampleRange = \<lparr>startLineNumber = 1, startColumn = 5, endLineNumber = 1, endColumn = 12\<rparr>"

definition sampleEdit :: WorkspaceEdit where
  "sampleEdit =
     \<lparr>edits = Some [\<lparr>resource = ''a.ts'', textEdits = [(sampleRange, ''bar'')]\<rparr>],
      rejectReason = None\<rparr>"

definition succeedingProvider :: RenameProvider where
  "succeedingProvider =
     \<lparr>provider_resolveRenameLocation = None,
      provider_provideRenameEdits = (\<lambda>m p n. Inr (Some sampleEdit))\<rparr>"

definition rejectingProvider :: "string \<Rightarrow> RenameProvider" where
  "rejectingProvider reason =
     \<lparr>provider_resolveRenameLocation = None,
      provider_provideRenameEdits =
        (\<lambda>m p n. Inr (Some \<lparr>edits = None, rejectReason = Some reason\<rparr>))\<rparr>"

definition silentProvider :: RenameProvider where
  "silentProvider =
     \<lparr>provider_resolveRenameLocation = Some (\<lambda>m p. Inr None),
      provider_provideRenameEdits = (\<lambda>m p n. Inr None)\<rparr>"

definition throwingProvider :: RenameProvider where
  "throwingProvider =
     \<lparr>provider_resolveRenameLocation = Some (\<lambda>m p. Inl (Thrown ''boom'')),
      provider_provideRenameEdits = (\<lambda>m p n. Inl (Thrown ''boom''))\<rparr>"

definition sampleSkeleton :: "RenameProvider list \<Rightarrow> RenameSkeleton" where
  "sampleSkeleton ps = \<lparr>model = sampleModel, position = samplePosition, provider = ps\<rparr>"

text \<open>
  An editor on the sample document with the cursor in the word and columns 7 to 9
  selected, and a session in which the user confirms the name \<open>bar\<close> and the bulk edit
  service reports a summary. In \<open>editedEditor\<close> the content has a new version.
\<close>

definition sampleEditor :: ICodeEditor where
  "sampleEditor =
     \<lparr>getModel = sampleModel,
      getPosition = samplePosition,
      getSelection = \<lparr>startLineNumber = 1, startColumn = 7, endLineNumber = 1, endColumn = 9\<rparr>,
      getScrollLeft = 0,
      getScrollTop = 0\<rparr>"

definition editedEditor :: ICodeEditor where
  "editedEditor = sampleEditor\<lparr>getModel := sampleModel\<lparr>getVersionId := 2\<rparr>\<rparr>"

definition sampleSession :: "RenameProvider list \<Rightarrow> input_result \<Rightarrow> ICodeEditor \<Rightarrow> Environment" where
  "sampleSession ps answer editorAtEnd =
     \<lparr>ordered = (\<lambda>m. ps),
      editorAtStart = sampleEditor,
      editorAfterLocate = sampleEditor,
      editorAfterInput = sampleEditor,
      editorAfterResolve = editorAtEnd,
      getInput = (\<lambda>r t s e. Inr answer),
      bulkEditApply = (\<lambda>w. Applied (Some ''1 edit''))\<rparr>"

text \<open>
  The same session with an input widget whose \<open>getInput\<close> throws when it is called.
\<close>

definition throwingWidgetSession :: "RenameProvider list \<Rightarrow> error \<Rightarrow> Environment" where
  "throwingWidgetSession ps err =
     (sampleSession ps (FocusFlag False) sampleEditor)\<lparr>getInput := (\<lambda>r t s e. Inl err)\<rparr>"

section \<open>The walk along the provider chain\<close>

declare provideRenameEdits.simps [simp del]

lemma callsFromTo_step:
  "i < k \<Longrightarrow>
   callsFromTo self newName i k =
     ProvideEditsCall i (position self) newName # callsFromTo self newName (Suc i) k"
  by (simp add: callsFromTo_def upt_conv_Cons)

lemma step_declined:
  assumes "i < length (provider self)" and "declined (respond self newName i)"
  shows "provideRenameEdits self newName i rejects pos =
          apsnd (Cons (ProvideEditsCall i (position self) newName))
            (provideRenameEdits self newName (Suc i)
               (rejects @ [reasonOf (respond self newName i)]) (position self))"
  using assms
  by (subst provideRenameEdits.simps)
     (auto simp: declined_def respond_def reasonOf_def localize_def
           split: sum.splits option.splits)

lemma step_succeeded:
  assumes "i < length (provider self)" and "respond self newName i = Inr (Some w)"
    and "\<not> truthy (rejectReason w)"
  shows "provideRenameEdits self newName i rejects pos =
           (Inr w, [ProvideEditsCall i (position self) newName])"
  using assms
  by (subst provideRenameEdits.simps) (auto simp: respond_def)

lemma step_threw:
  assumes "i < length (provider self)" and "respond self newName i = Inl e"
  shows "provideRenameEdits self newName i rejects pos =
           (Inl e, [ProvideEditsCall i (position self) newName])"
  using assms
  by (subst provideRenameEdits.simps) (auto simp: respond_def)

lemma step_exhausted:
  assumes "length (provider self) \<le> i"
  shows "provideRenameEdits self newName i rejects pos =
           (Inr \<lparr>edits = None, rejectReason = Some (join [CHR 0x0A] rejects)\<rparr>, [])"
  using assms by (subst provideRenameEdits.simps) simp

lemma walk_to_success:
  assumes "k < length (provider self)"
    and "respond self newName k = Inr (Some w)" and "\<not> truthy (rejectReason w)"
  shows "i \<le> k \<Longrightarrow> (\<forall>j. i \<le> j \<and> j < k \<longrightarrow> declined (respond self newName j)) \<Longrightarrow>
     provideRenameEdits self newName i rejects pos =
       (Inr w, callsFromTo self newName i (Suc k))"
proof (induction "k - i" arbitrary: i rejects pos)
  case 0
  then have "i = k" by simp
  then show ?case using assms by (simp add: step_succeeded callsFromTo_def)
next
  case (Suc d)
  then have lt: "i < k" by simp
  have d: "declined (respond self newName i)" using Suc.prems lt by simp
  have il: "i < length (provider self)" using lt assms(1) by simp
  have rest:
    "provideRenameEdits self newName (Suc i)
       (rejects @ [reasonOf (respond self newName i)]) (position self)
     = (Inr w, callsFromTo self newName (Suc i) (Suc k))"
    using Suc.hyps(1)[of "Suc i"] Suc.hyps(2) Suc.prems lt by simp
  show ?case
    using lt by (simp add: step_declined[OF il d] rest callsFromTo_step)
qed

text \<open>A provider that throws ends the walk with its error.\<close>

lemma walk_to_throw:
  assumes "k < length (provider self)" and "respond self newName k = Inl e"
  shows "i \<le> k \<Longrightarrow> (\<forall>j. i \<le> j \<and> j < k \<longrightarrow> declined (respond self newName j)) \<Longrightarrow>
     provideRenameEdits self newName i rejects pos =
       (Inl e, callsFromTo self newName i (Suc k))"
proof (induction "k - i" arbitrary: i rejects pos)
  case 0
  then have "i = k" by simp
  then show ?case using assms by (simp add: step_threw callsFromTo_def)
next
  case (Suc d)
  then have lt: "i < k" by simp
  have d: "declined (respond self newName i)" using Suc.prems lt by simp
  have il: "i < length (provider self)" using lt assms(1) by simp
  have rest:
    "provideRenameEdits self newName (Suc i)
       (rejects @ [reasonOf (respond self newName i)]) (position self)
     = (Inl e, callsFromTo self newName (Suc i) (Suc k))"
    using Suc.hyps(1)[of "Suc i"] Suc.hyps(2) Suc.prems lt by simp
  show ?case
    using lt by (simp add: step_declined[OF il d] rest callsFromTo_step)
qed

text \<open>When every provider declines, the walk reaches the end of the chain.\<close>

lemma walk_to_end:
  "i \<le> length (provider self) \<Longrightarrow>
   (\<forall>j. i \<le> j \<and> j < length (provider self) \<longrightarrow> declined (respond self newName j)) \<Longrightarrow>
     provideRenameEdits self newName i rejects pos =
       (Inr \<lparr>edits = None,
             rejectReason = Some (join [CHR 0x0A]
                (rejects @ map (\<lambda>j. reasonOf (respond self newName j))
                             [i..<length (provider self)]))\<rparr>,
        callsFromTo self newName i (length (provider self)))"
proof (induction "length (provider self) - i" arbitrary: i rejects pos)
  case 0
  then have "i = length (provider self)" by simp
  then show ?case by (simp add: step_exhausted callsFromTo_def)
next
  case (Suc d)
  then have lt: "i < length (provider self)" by simp
  have d: "declined (respond self newName i)" using Suc.prems lt by simp
  have rest:
    "provideRenameEdits self newName (Suc i)
       (rejects @ [reasonOf (respond self newName i)]) (position self)
     = (Inr \<lparr>edits = None,
             rejectReason = Some (join [CHR 0x0A]
                ((rejects @ [reasonOf (respond self newName i)])
                   @ map (\<lambda>j. reasonOf (respond self newName j))
                       [Suc i..<length (provider self)]))\<rparr>,
        callsFromTo self newName (Suc i) (length (provider self)))"
    using Suc.hyps(1)[of "Suc i"] Suc.hyps(2) Suc.prems lt by simp
  show ?case
    using lt by (simp add: step_declined[OF lt d] rest callsFromTo_step upt_conv_Cons)
qed

lemmas sample_defs =
  sampleSkeleton_def sampleModel_def samplePosition_def sampleRange_def sampleEdit_def
  succeedingProvider_def rejectingProvider_def silentProvider_def throwingProvider_def

lemmas answer_defs = respond_def succeeded_def declined_def threw_def failed_def truthy_def

section \<open>Properties of the provider chain\<close>

text \<open>
  An answer is of exactly one kind; to decline is to answer without success and
  without an exception.
\<close>

lemma answer_kinds:
  "declined r = (\<not> succeeded r \<and> \<not> threw r)"
  by (auto simp: declined_def succeeded_def threw_def split: sum.splits option.splits)

text \<open>
  C1 (as amended). \<open>provideRenameEdits\<close> walks the chain in order from index 0: if
  provider \<open>k\<close> is the first to return a result with no reject reason and every provider
  before it returned without throwing (no result, or a result with a non-empty reject
  reason), then the edit of provider \<open>k\<close> is returned unchanged, the providers
  \<open>0, ..., k\<close> have been invoked once each in this order, and no provider after \<open>k\<close>
  has been invoked.
\<close>

theorem resolveEdits_first_success:
  assumes "k < length (provider self)"
    and "\<forall>j<k. declined (respond self newName j)"
    and "respond self newName k = Inr (Some w)"
    and "\<not> truthy (rejectReason w)"
  shows "provideRenameEdits self newName 0 [] pos =
           (Inr w, map (\<lambda>j. ProvideEditsCall j (position self) newName) [0..<Suc k])"
  using walk_to_success[OF assms(1,3,4), of 0 "[]" pos] assms(2)
  by (simp add: callsFromTo_def)

text \<open>
  The chain of the spec: the first provider rejects with \<open>a\<close>, the second succeeds, the
  third is never invoked.
\<close>

theorem resolveEdits_first_success_witness:
  "provideRenameEdits
     (sampleSkeleton [rejectingProvider ''a'', succeedingProvider, throwingProvider])
     ''bar'' 0 [] samplePosition =
   (Inr sampleEdit,
    [ProvideEditsCall 0 samplePosition ''bar'', ProvideEditsCall 1 samplePosition ''bar''])"
proof -
  let ?sk = "sampleSkeleton [rejectingProvider ''a'', succeedingProvider, throwingProvider]"
  have 1: "1 < length (provider ?sk)" by (simp add: sample_defs)
  have 2: "\<forall>j<1. declined (respond ?sk ''bar'' j)" by (simp add: sample_defs answer_defs)
  have 3: "respond ?sk ''bar'' 1 = Inr (Some sampleEdit)" by (simp add: sample_defs answer_defs)
  have 4: "\<not> truthy (rejectReason sampleEdit)" by (simp add: sample_defs answer_defs)
  have 5: "position ?sk = samplePosition" by (simp add: sample_defs)
  show ?thesis
    using resolveEdits_first_success[OF 1 2 3 4, of samplePosition] 5
    by (simp add: upt_conv_Cons)
qed

text \<open>
  A provider that throws ends the walk. In the chain below the second provider is the
  first (and only) one to return a result with no reject reason and the first provider
  fails by throwing, yet the second provider is not invoked and the promise is rejected
  with the error of the first.
\<close>

theorem resolveEdits_thrower_counterexample:
  "succeeded (respond (sampleSkeleton [throwingProvider, succeedingProvider]) ''bar'' 1)
   \<and> \<not> succeeded (respond (sampleSkeleton [throwingProvider, succeedingProvider]) ''bar'' 0)
   \<and> failed (respond (sampleSkeleton [throwingProvider, succeedingProvider]) ''bar'' 0)
   \<and> provideRenameEdits (sampleSkeleton [throwingProvider, succeedingProvider])
        ''bar'' 0 [] samplePosition
      = (Inl (Thrown ''boom''), [ProvideEditsCall 0 samplePosition ''bar''])
   \<and> fst (provideRenameEdits (sampleSkeleton [throwingProvider, succeedingProvider])
        ''bar'' 0 [] samplePosition) \<noteq> Inr sampleEdit"
  by (simp add: provideRenameEdits.simps sample_defs answer_defs)

text \<open>
  C2 (as amended). If each of the \<open>N\<close> providers returns no result or a result with a
  non-empty reject reason (none throws), \<open>provideRenameEdits\<close> invokes all of them in
  chain order and returns a workspace edit with \<open>edits\<close> undefined whose reject reason
  is the \<open>N\<close> reasons joined by newlines in chain order, \<open>No result.\<close> standing for a
  provider without a result object; for the empty chain the reject reason is the empty
  string.
\<close>

theorem resolveEdits_all_declined:
  assumes "\<forall>j<length (provider self). declined (respond self newName j)"
  shows "provideRenameEdits self newName 0 [] pos =
           (Inr \<lparr>edits = None,
                 rejectReason = Some (join [CHR 0x0A]
                   (map (\<lambda>j. reasonOf (respond self newName j)) [0..<length (provider self)]))\<rparr>,
            map (\<lambda>j. ProvideEditsCall j (position self) newName) [0..<length (provider self)])
         \<and> (provider self = [] \<longrightarrow>
              fst (provideRenameEdits self newName 0 [] pos)
                = Inr \<lparr>edits = None, rejectReason = Some []\<rparr>)"
  using walk_to_end[of 0 self newName "[]" pos] assms
  by (auto simp add: callsFromTo_def)

theorem resolveEdits_all_declined_witness:
  "provideRenameEdits (sampleSkeleton [rejectingProvider ''a'', silentProvider])
     ''bar'' 0 [] samplePosition =
   (Inr \<lparr>edits = None, rejectReason = Some (''a'' @ [CHR 0x0A] @ ''No result.'')\<rparr>,
    [ProvideEditsCall 0 samplePosition ''bar'', ProvideEditsCall 1 samplePosition ''bar''])
   \<and> fst (provideRenameEdits (sampleSkeleton []) ''bar'' 0 [] samplePosition)
       = Inr \<lparr>edits = None, rejectReason = Some []\<rparr>"
proof -
  let ?sk = "sampleSkeleton [rejectingProvider ''a'', silentProvider]"
  have 1: "\<forall>j<length (provider ?sk). declined (respond ?sk ''bar'' j)"
    by (simp add: sample_defs answer_defs less_Suc_eq)
  have 2: "\<forall>j<length (provider (sampleSkeleton [])).
             declined (respond (sampleSkeleton []) ''bar'' j)"
    by (simp add: sample_defs)
  have 3: "provider (sampleSkeleton []) = []" by (simp add: sample_defs)
  show ?thesis
    using resolveEdits_all_declined[OF 1, of samplePosition]
      resolveEdits_all_declined[OF 2, of samplePosition] 3
    by (simp add: upt_conv_Cons sample_defs answer_defs reasonOf_def)
qed

text \<open>
  Both providers of the chain below fail, the second one by throwing: the promise is
  rejected with that error, and no workspace edit with joined reasons is returned.
\<close>

theorem resolveEdits_all_failed_counterexample:
  "length (provider (sampleSkeleton [rejectingProvider ''a'', throwingProvider])) = 2
   \<and> failed (respond (sampleSkeleton [rejectingProvider ''a'', throwingProvider]) ''bar'' 0)
   \<and> failed (respond (sampleSkeleton [rejectingProvider ''a'', throwingProvider]) ''bar'' 1)
   \<and> provideRenameEdits (sampleSkeleton [rejectingProvider ''a'', throwingProvider])
        ''bar'' 0 [] samplePosition
      = (Inl (Thrown ''boom''),
         [ProvideEditsCall 0 samplePosition ''bar'', ProvideEditsCall 1 samplePosition ''bar''])"
  by (simp add: provideRenameEdits.simps sample_defs answer_defs)

lemma calls_are_provider_calls:
  "set (snd (provideRenameEdits self newName i rejects pos))
     \<subseteq> {ProvideEditsCall j (position self) newName | j. i \<le> j \<and> j < length (provider self)}"
proof (induction self newName i rejects pos rule: provideRenameEdits.induct)
  case (1 self newName i rejects pos)
  show ?case
  proof (cases "length (provider self) \<le> i")
    case True
    then show ?thesis by (simp add: step_exhausted)
  next
    case False
    then have lt: "i < length (provider self)" by simp
    show ?thesis
    proof (cases "provider_provideRenameEdits (provider self ! i) (model self)
                    (position self) newName")
      case (Inl e)
      then show ?thesis using lt by (subst provideRenameEdits.simps) auto
    next
      case (Inr r)
      show ?thesis
      proof (cases r)
        case None
        have "set (snd (provideRenameEdits self newName (i + 1)
                 (rejects @ [localize ''no result'' ''No result.'']) (position self)))
              \<subseteq> {ProvideEditsCall j (position self) newName | j.
                    i + 1 \<le> j \<and> j < length (provider self)}"
          using "1.IH"(1)[OF False Inr None] .
        then show ?thesis using lt Inr None
          by (subst provideRenameEdits.simps)
             (auto simp: apsnd_def map_prod_def split: prod.splits)
      next
        case (Some result)
        show ?thesis
        proof (cases "truthy (rejectReason result)")
          case True
          have "set (snd (provideRenameEdits self newName (i + 1)
                 (rejects @ [the (rejectReason result)]) (position self)))
              \<subseteq> {ProvideEditsCall j (position self) newName | j.
                    i + 1 \<le> j \<and> j < length (provider self)}"
            using "1.IH"(2)[OF False Inr Some True] .
          then show ?thesis using lt Inr Some True
            by (subst provideRenameEdits.simps)
               (auto simp: apsnd_def map_prod_def split: prod.splits)
        next
          case F: False
          then show ?thesis using lt Inr Some
            by (subst provideRenameEdits.simps) auto
        qed
      qed
    qed
  qed
qed

text \<open>The value passed for the parameter \<open>position\<close> has no influence on the walk.\<close>

lemma position_parameter_ignored:
  "provideRenameEdits self newName i rejects pos
     = provideRenameEdits self newName i rejects pos'"
  by (subst provideRenameEdits.simps, subst (2) provideRenameEdits.simps) simp

section \<open>Properties of the location\<close>

text \<open>
  C7. Let the chain have a first provider that supplies no rename location (it lacks
  the capability, or the capability yields nothing). For a position inside a word token
  \<open>resolveRenameLocation\<close> returns exactly the span of that word on the line of the
  position, from the start column to the end column of the word, and the text of the
  word; and it returns none only when neither the first provider nor the word lookup
  produces a location.
\<close>

theorem resolveRenameLocation_word_fallback:
  assumes "provider self = p # ps"
  shows "(noLocationOverride self p
            \<and> getWordAtPosition (model self) (position self) = Some w
            \<and> insideWord (position self) w
          \<longrightarrow> fst (resolveRenameLocation self) =
                Inr (Some \<lparr>loc_range =
                             \<lparr>startLineNumber = lineNumber (position self),
                              startColumn = wordStartColumn w,
                              endLineNumber = lineNumber (position self),
                              endColumn = wordEndColumn w\<rparr>,
                           loc_text = word w\<rparr>))
         \<and> (fst (resolveRenameLocation self) = Inr None
          \<longrightarrow> noLocationOverride self p
                \<and> getWordAtPosition (model self) (position self) = None)"
  using assms
  by (auto simp: resolveRenameLocation_def wordLocation_def noLocationOverride_def
        insideWord_def newRange_def split: option.splits sum.splits)

theorem resolveRenameLocation_word_fallback_witness:
  "fst (resolveRenameLocation (sampleSkeleton [silentProvider, succeedingProvider]))
     = Inr (Some \<lparr>loc_range = sampleRange, loc_text = ''fooBarX''\<rparr>)"
proof -
  let ?sk = "sampleSkeleton [silentProvider, succeedingProvider]"
  let ?w = "\<lparr>word = ''fooBarX'', wordStartColumn = 5, wordEndColumn = 12\<rparr>"
  have 1: "provider ?sk = silentProvider # [succeedingProvider]" by (simp add: sample_defs)
  have 2: "noLocationOverride ?sk silentProvider"
    by (simp add: noLocationOverride_def sample_defs)
  have 3: "getWordAtPosition (model ?sk) (position ?sk) = Some ?w" by (simp add: sample_defs)
  have 4: "insideWord (position ?sk) ?w" by (simp add: insideWord_def sample_defs)
  show ?thesis
    using resolveRenameLocation_word_fallback[OF 1, of ?w] 2 3 4
    by (simp add: sample_defs)
qed

text \<open>
  C10. \<open>resolveRenameLocation\<close> reads the first element of the chain unconditionally:
  on an empty chain, where \<open>hasProvider\<close> is false, it raises a TypeError instead of
  returning none, and no provider is called. When \<open>hasProvider\<close> holds, only the first
  provider counts: the outcome is that of the chain cut down to its first provider, at
  most one call is made and it goes to provider 0, and an error can only be one that
  the location capability of the first provider raised itself.
\<close>

theorem resolveRenameLocation_needs_provider:
  "(\<not> hasProvider self \<longrightarrow>
      resolveRenameLocation self = (Inl (TypeError ''resolveRenameLocation''), []))
   \<and> (hasProvider self \<longrightarrow>
        resolveRenameLocation self
          = resolveRenameLocation (self\<lparr>provider := [hd (provider self)]\<rparr>)
        \<and> (\<forall>e. fst (resolveRenameLocation self) = Inl e \<longrightarrow>
              (\<exists>f. provider_resolveRenameLocation (hd (provider self)) = Some f
                   \<and> f (model self) (position self) = Inl e))
        \<and> set (snd (resolveRenameLocation self)) \<subseteq> {ResolveLocationCall 0 (position self)}
        \<and> length (snd (resolveRenameLocation self)) \<le> 1)"
  by (cases "provider self")
     (auto simp: hasProvider_def resolveRenameLocation_def wordLocation_def
           split: option.splits sum.splits)

theorem resolveRenameLocation_needs_provider_witness:
  "resolveRenameLocation (sampleSkeleton []) = (Inl (TypeError ''resolveRenameLocation''), [])
   \<and> resolveRenameLocation (sampleSkeleton [silentProvider, throwingProvider])
       = resolveRenameLocation (sampleSkeleton [silentProvider])
   \<and> resolveRenameLocation (sampleSkeleton [silentProvider, throwingProvider])
       = (Inr (Some \<lparr>loc_range = sampleRange, loc_text = ''fooBarX''\<rparr>),
          [ResolveLocationCall 0 samplePosition])"
proof -
  have 1: "\<not> hasProvider (sampleSkeleton [])" by (simp add: hasProvider_def sample_defs)
  have 2: "hasProvider (sampleSkeleton [silentProvider, throwingProvider])"
    by (simp add: hasProvider_def sample_defs)
  have 3: "(sampleSkeleton [silentProvider, throwingProvider])
             \<lparr>provider := [hd (provider (sampleSkeleton [silentProvider, throwingProvider]))]\<rparr>
           = sampleSkeleton [silentProvider]"
    by (simp add: sampleSkeleton_def)
  have 4: "resolveRenameLocation (sampleSkeleton [silentProvider])
       = (Inr (Some \<lparr>loc_range = sampleRange, loc_text = ''fooBarX''\<rparr>),
          [ResolveLocationCall 0 samplePosition])"
    by (simp add: resolveRenameLocation_def wordLocation_def newRange_def sample_defs)
  show ?thesis
    using resolveRenameLocation_needs_provider[of "sampleSkeleton []"]
      resolveRenameLocation_needs_provider[of "sampleSkeleton [silentProvider, throwingProvider]"]
      1 2 3 4
    by simp
qed

section \<open>Properties of the command\<close>

text \<open>
  C6. The command \<open>_executeDocumentRenameProvider\<close>, the programmatic entry to
  \<open>rename\<close>, fails at once with the illegal-argument error for \<open>newName\<close> whenever
  \<open>newName\<close> is not a string, without calling a provider. For a string it returns the
  result of the fallback along the ordered chain that the registry holds for the
  document: the edit of the first provider that succeeds after all providers before it
  have declined, with the calls to the providers up to that one; the error of a
  provider that throws after all providers before it have declined; and, when every
  provider declines, the rejection with the reasons joined by newlines. Each provider is
  called with the document, the position and the name of the command, and nothing but
  provider calls happens.
\<close>

theorem executeDocumentRenameProvider_checks_newName:
  "(\<not> isString v \<longrightarrow>
      executeDocumentRenameProvider reg m p \<lparr>args_newName = v\<rparr>
        = (Inl (IllegalArgument ''newName''), []))
   \<and> (k < length (reg m)
        \<and> (\<forall>j<k. declined (registryAnswer reg m p s j))
        \<and> registryAnswer reg m p s k = Inr (Some w) \<and> \<not> truthy (rejectReason w)
      \<longrightarrow> executeDocumentRenameProvider reg m p \<lparr>args_newName = JSString s\<rparr>
            = (Inr w, map (\<lambda>j. ProvideEditsCall j p s) [0..<Suc k]))
   \<and> (i < length (reg m)
        \<and> (\<forall>j<i. declined (registryAnswer reg m p s j))
        \<and> registryAnswer reg m p s i = Inl e
      \<longrightarrow> executeDocumentRenameProvider reg m p \<lparr>args_newName = JSString s\<rparr>
            = (Inl e, map (\<lambda>j. ProvideEditsCall j p s) [0..<Suc i]))
   \<and> ((\<forall>j<length (reg m). declined (registryAnswer reg m p s j))
      \<longrightarrow> executeDocumentRenameProvider reg m p \<lparr>args_newName = JSString s\<rparr>
            = (Inr \<lparr>edits = None,
                    rejectReason = Some (join [CHR 0x0A]
                      (map (\<lambda>j. reasonOf (registryAnswer reg m p s j)) [0..<length (reg m)]))\<rparr>,
               map (\<lambda>j. ProvideEditsCall j p s) [0..<length (reg m)]))
   \<and> (\<forall>ev \<in> set (snd (executeDocumentRenameProvider reg m p \<lparr>args_newName = JSString s\<rparr>)).
         \<not> uiEvent ev)"
proof -
  let ?sk = "newRenameSkeleton reg m p"
  let ?run = "executeDocumentRenameProvider reg m p \<lparr>args_newName = JSString s\<rparr>"
  have sk: "provider ?sk = reg m" "position ?sk = p"
    by (simp_all add: newRenameSkeleton_def)
  have ans: "respond ?sk s j = registryAnswer reg m p s j" for j
    by (simp add: respond_def registryAnswer_def newRenameSkeleton_def)
  have run: "?run = provideRenameEdits ?sk s 0 [] p"
    by (simp add: executeDocumentRenameProvider_def rename_def)
  have a: "\<not> isString v \<longrightarrow>
      executeDocumentRenameProvider reg m p \<lparr>args_newName = v\<rparr>
        = (Inl (IllegalArgument ''newName''), [])"
    by (cases v) (simp_all add: executeDocumentRenameProvider_def)
  have b: "?run = (Inr w, map (\<lambda>j. ProvideEditsCall j p s) [0..<Suc k])"
    if "k < length (reg m)" and "\<forall>j<k. declined (registryAnswer reg m p s j)"
      and "registryAnswer reg m p s k = Inr (Some w)" and "\<not> truthy (rejectReason w)"
    using walk_to_success[of k ?sk s w 0 "[]" p] that
    by (simp add: run sk ans callsFromTo_def)
  have c: "?run = (Inl e, map (\<lambda>j. ProvideEditsCall j p s) [0..<Suc i])"
    if "i < length (reg m)" and "\<forall>j<i. declined (registryAnswer reg m p s j)"
      and "registryAnswer reg m p s i = Inl e"
    using walk_to_throw[of i ?sk s e 0 "[]" p] that
    by (simp add: run sk ans callsFromTo_def)
  have d: "?run = (Inr \<lparr>edits = None,
                    rejectReason = Some (join [CHR 0x0A]
                      (map (\<lambda>j. reasonOf (registryAnswer reg m p s j)) [0..<length (reg m)]))\<rparr>,
               map (\<lambda>j. ProvideEditsCall j p s) [0..<length (reg m)])"
    if "\<forall>j<length (reg m). declined (registryAnswer reg m p s j)"
    using walk_to_end[of 0 ?sk s "[]" p] that
    by (simp add: run sk ans callsFromTo_def)
  have f: "\<forall>ev \<in> set (snd ?run). \<not> uiEvent ev"
    using calls_are_provider_calls[of ?sk s 0 "[]" p] unfolding run by auto
  show ?thesis using a b c d f by blast
qed

text \<open>
  A number for the name; a chain whose second provider succeeds after the first has
  rejected; a chain whose second provider throws after the first has returned nothing;
  and a chain of two providers that both decline.
\<close>

theorem executeDocumentRenameProvider_checks_newName_witness:
  "executeDocumentRenameProvider
     (\<lambda>m. [rejectingProvider ''a'', succeedingProvider, throwingProvider])
     sampleModel samplePosition \<lparr>args_newName = JSNumber 3\<rparr>
     = (Inl (IllegalArgument ''newName''), [])
   \<and> executeDocumentRenameProvider
     (\<lambda>m. [rejectingProvider ''a'', succeedingProvider, throwingProvider])
     sampleModel samplePosition \<lparr>args_newName = JSString ''bar''\<rparr>
     = (Inr sampleEdit,
        [ProvideEditsCall 0 samplePosition ''bar'', ProvideEditsCall 1 samplePosition ''bar''])
   \<and> executeDocumentRenameProvider
     (\<lambda>m. [silentProvider, throwingProvider, succeedingProvider])
     sampleModel samplePosition \<lparr>args_newName = JSString ''bar''\<rparr>
     = (Inl (Thrown ''boom''),
        [ProvideEditsCall 0 samplePosition ''bar'', ProvideEditsCall 1 samplePosition ''bar''])
   \<and> executeDocumentRenameProvider
     (\<lambda>m. [rejectingProvider ''a'', silentProvider])
     sampleModel samplePosition \<lparr>args_newName = JSString ''bar''\<rparr>
     = (Inr \<lparr>edits = None, rejectReason = Some (''a'' @ [CHR 0x0A] @ ''No result.'')\<rparr>,
        [ProvideEditsCall 0 samplePosition ''bar'', ProvideEditsCall 1 samplePosition ''bar''])"
proof -
  let ?A = "\<lambda>m::ITextModel. [rejectingProvider ''a'', succeedingProvider, throwingProvider]"
  let ?B = "\<lambda>m::ITextModel. [silentProvider, throwingProvider, succeedingProvider]"
  let ?C = "\<lambda>m::ITextModel. [rejectingProvider ''a'', silentProvider]"
  have v: "\<not> isString (JSNumber 3)" by simp
  have A1: "1 < length (?A sampleModel)" by simp
  have A2: "\<forall>j<1. declined (registryAnswer ?A sampleModel samplePosition ''bar'' j)"
    by (simp add: registryAnswer_def rejectingProvider_def declined_def truthy_def)
  have A3: "registryAnswer ?A sampleModel samplePosition ''bar'' 1 = Inr (Some sampleEdit)"
    by (simp add: registryAnswer_def succeedingProvider_def)
  have A4: "\<not> truthy (rejectReason sampleEdit)" by (simp add: sampleEdit_def truthy_def)
  have B1: "1 < length (?B sampleModel)" by simp
  have B2: "\<forall>j<1. declined (registryAnswer ?B sampleModel samplePosition ''bar'' j)"
    by (simp add: registryAnswer_def silentProvider_def declined_def)
  have B3: "registryAnswer ?B sampleModel samplePosition ''bar'' 1 = Inl (Thrown ''boom'')"
    by (simp add: registryAnswer_def throwingProvider_def)
  have C1: "\<forall>j<length (?C sampleModel).
              declined (registryAnswer ?C sampleModel samplePosition ''bar'' j)"
    by (simp add: registryAnswer_def rejectingProvider_def silentProvider_def declined_def
          truthy_def less_Suc_eq)
  have C2: "map (\<lambda>j. reasonOf (registryAnswer ?C sampleModel samplePosition ''bar'' j))
              [0..<length (?C sampleModel)] = [''a'', ''No result.'']"
    by (simp add: registryAnswer_def rejectingProvider_def silentProvider_def reasonOf_def
          upt_conv_Cons)
  have a: "executeDocumentRenameProvider ?A sampleModel samplePosition \<lparr>args_newName = JSNumber 3\<rparr>
             = (Inl (IllegalArgument ''newName''), [])"
    and b: "executeDocumentRenameProvider ?A sampleModel samplePosition
              \<lparr>args_newName = JSString ''bar''\<rparr>
             = (Inr sampleEdit, map (\<lambda>j. ProvideEditsCall j samplePosition ''bar'') [0..<Suc 1])"
    using executeDocumentRenameProvider_checks_newName
            [where v = "JSNumber 3" and reg = ?A and m = sampleModel and p = samplePosition
               and s = "''bar''" and k = 1 and w = sampleEdit]
      v A1 A2 A3 A4 by blast+
  have c: "executeDocumentRenameProvider ?B sampleModel samplePosition
              \<lparr>args_newName = JSString ''bar''\<rparr>
             = (Inl (Thrown ''boom''),
                map (\<lambda>j. ProvideEditsCall j samplePosition ''bar'') [0..<Suc 1])"
    using executeDocumentRenameProvider_checks_newName
            [where reg = ?B and m = sampleModel and p = samplePosition
               and s = "''bar''" and i = 1 and e = "Thrown ''boom''"]
      B1 B2 B3 by blast
  have d: "executeDocumentRenameProvider ?C sampleModel samplePosition
              \<lparr>args_newName = JSString ''bar''\<rparr>
             = (Inr \<lparr>edits = None,
                     rejectReason = Some (join [CHR 0x0A]
                       (map (\<lambda>j. reasonOf (registryAnswer ?C sampleModel samplePosition ''bar'' j))
                          [0..<length (?C sampleModel)]))\<rparr>,
                map (\<lambda>j. ProvideEditsCall j samplePosition ''bar'') [0..<length (?C sampleModel)])"
    using executeDocumentRenameProvider_checks_newName
            [where reg = ?C and m = sampleModel and p = samplePosition and s = "''bar''"]
      C1 by blast
  show ?thesis
    unfolding a b c d C2 by (simp add: upt_conv_Cons)
qed

section \<open>Properties of a session\<close>

lemmas session_defs = sampleSession_def sampleEditor_def editedEditor_def

lemmas run_defs =
  run_def onInput_def onRenameResult_def withProgress_def selectionOffsets_def
  resolveRenameLocation_def wordLocation_def newRenameSkeleton_def hasProvider_def
  newRange_def Range_lift_def getStartPosition_def Range_isEmpty_def
  Range_spansMultipleLines_def Range_containsRange_def newEditorState_def validate_def
  contextKeySet_def contextKeyReset_def localize_def

text \<open>
  The calls made while the location is resolved, the comparison of a snapshot with the
  editor, and the course of \<open>run\<close> once a location has been found.
\<close>

lemma locate_calls:
  "set (snd (resolveRenameLocation self)) \<subseteq> {ResolveLocationCall 0 (position self)}"
  by (auto simp: resolveRenameLocation_def split: list.splits option.splits sum.splits)

lemma validate_iff: "validate (newEditorState a) b = (\<not> facetsChanged a b)"
  by (auto simp: validate_def newEditorState_def facetsChanged_def)

lemma run_reaches_input:
  assumes "hasProvider (sessionSkeleton env)"
    and "resolveRenameLocation (sessionSkeleton env) = (Inr (Some loc), lcalls)"
  shows "run env visible =
          (case getInput env (loc_range loc) (loc_text loc)
                  (fst (prefill env loc)) (snd (prefill env loc)) of
             Inl err \<Rightarrow>
               (Inl err, True,
                lcalls @ [InputVisibleSet True,
                          GetInput (loc_range loc) (loc_text loc)
                            (fst (prefill env loc)) (snd (prefill env loc))])
           | Inr answer \<Rightarrow>
               (case onInput env (sessionSkeleton env) loc True answer of
                  (outcome, visible', evs) \<Rightarrow>
                    (outcome, visible',
                     lcalls @ [InputVisibleSet True,
                               GetInput (loc_range loc) (loc_text loc)
                                 (fst (prefill env loc)) (snd (prefill env loc))] @ evs)))"
  using assms
  by (simp add: run_def sessionSkeleton_def prefill_def contextKeySet_def Let_def
        split: sum.splits)

lemma filter_locate_calls [simp]:
  "filter notice (snd (resolveRenameLocation self)) = []"
  "filter applies (snd (resolveRenameLocation self)) = []"
  "filter inputEvent (snd (resolveRenameLocation self)) = []"
  using locate_calls[of self] by (auto simp: filter_empty_conv)

lemma filter_provider_calls [simp]:
  "filter notice (snd (provideRenameEdits self newName i rejects pos)) = []"
  "filter applies (snd (provideRenameEdits self newName i rejects pos)) = []"
  "filter inputEvent (snd (provideRenameEdits self newName i rejects pos)) = []"
  using calls_are_provider_calls[of self newName i rejects pos] by (auto simp: filter_empty_conv)

lemma filter_withProgress [simp]:
  "filter notice (withProgress cs) = filter notice cs"
  "filter applies (withProgress cs) = filter applies cs"
  "filter inputEvent (withProgress cs) = filter inputEvent cs"
  by (auto simp: withProgress_def split: list.splits)

text \<open>
  C9. When the ordered provider chain of the document is empty, \<open>run\<close> returns at
  once: the promise is fulfilled, no event happens (no provider call, no input widget,
  no message or notification, no focus change, no edit) and the context key keeps the
  value it had.
\<close>

theorem run_without_provider:
  assumes "ordered env (getModel (editorAtStart env)) = []"
  shows "run env visible = (Inr (), visible, [])"
  using assms by (simp add: run_def newRenameSkeleton_def hasProvider_def)

theorem run_without_provider_witness:
  "run (sampleSession [] (NewName ''bar'') sampleEditor) True = (Inr (), True, [])
   \<and> run (sampleSession [] (NewName ''bar'') sampleEditor) False = (Inr (), False, [])"
proof -
  have 1: "ordered (sampleSession [] (NewName ''bar'') sampleEditor)
             (getModel (editorAtStart (sampleSession [] (NewName ''bar'') sampleEditor))) = []"
    by (simp add: sampleSession_def)
  show ?thesis
    using run_without_provider[OF 1, of True] run_without_provider[OF 1, of False] by simp
qed

text \<open>
  C3 (the code does otherwise). \<open>run\<close> hands the start of the resolved range to
  \<open>provideRenameEdits\<close>, but the provider is invoked with the position the skeleton was
  built with. In the session below the cursor is at column 7 of the word that spans
  columns 5 to 12: the start of the resolved range is column 5, and the provider is
  called with column 7.
\<close>

theorem run_invokes_provider_at_cursor:
  "getStartPosition (Range_lift sampleRange) = \<lparr>lineNumber = 1, column = 5\<rparr>
   \<and> run (sampleSession [succeedingProvider] (NewName ''bar'') sampleEditor) False =
       (Inr (), False,
        [InputVisibleSet True, GetInput sampleRange ''fooBarX'' 2 4, InputVisibleReset,
         EditorFocus, ProvideEditsCall 0 \<lparr>lineNumber = 1, column = 7\<rparr> ''bar'', ShowWhile 250,
         BulkEditApply sampleEdit, AriaAlert ''fooBarX'' ''bar'' ''1 edit''])"
  by (simp add: run_defs session_defs sample_defs provideRenameEdits.simps truthy_def)

text \<open>
  C8. When \<open>run\<close> has found a location, the input widget is opened for its range and
  text. If the selection of the editor is non-empty, on a single line and contained in
  the range, the widget receives the start column of the selection minus the start
  column of the range, not below 0, and the smaller of the two end columns minus the
  start column of the range; otherwise it receives 0 and the length of the text. For the
  range of columns 5 to 12 with the text \<open>fooBarX\<close> and the selection of columns 7 to
  9 the offsets are 2 and 4.
\<close>

theorem input_prefill:
  assumes "hasProvider (sessionSkeleton env)"
    and "resolveRenameLocation (sessionSkeleton env) = (Inr (Some loc), lcalls)"
  shows "(\<exists>rest. snd (snd (run env visible)) =
           lcalls @ [InputVisibleSet True,
             GetInput (loc_range loc) (loc_text loc)
               (if \<not> Range_isEmpty (getSelection (editorAfterLocate env))
                   \<and> \<not> Range_spansMultipleLines (getSelection (editorAfterLocate env))
                   \<and> Range_containsRange (loc_range loc) (getSelection (editorAfterLocate env))
                then max 0 (startColumn (getSelection (editorAfterLocate env))
                              - startColumn (loc_range loc))
                else 0)
               (if \<not> Range_isEmpty (getSelection (editorAfterLocate env))
                   \<and> \<not> Range_spansMultipleLines (getSelection (editorAfterLocate env))
                   \<and> Range_containsRange (loc_range loc) (getSelection (editorAfterLocate env))
                then min (endColumn (loc_range loc)) (endColumn (getSelection (editorAfterLocate env)))
                       - startColumn (loc_range loc)
                else int (length (loc_text loc)))] @ rest)
         \<and> selectionOffsets \<lparr>loc_range = sampleRange, loc_text = ''fooBarX''\<rparr>
               \<lparr>startLineNumber = 1, startColumn = 7, endLineNumber = 1, endColumn = 9\<rparr>
             = (2, 4)"
proof -
  have "selectionOffsets \<lparr>loc_range = sampleRange, loc_text = ''fooBarX''\<rparr>
          \<lparr>startLineNumber = 1, startColumn = 7, endLineNumber = 1, endColumn = 9\<rparr>
        = (2, 4)"
    by (simp add: selectionOffsets_def sampleRange_def Range_isEmpty_def
          Range_spansMultipleLines_def Range_containsRange_def)
  then show ?thesis
    by (simp add: run_reaches_input[OF assms] prefill_def selectionOffsets_def
          split: prod.splits sum.splits)
qed

theorem input_prefill_witness:
  "\<exists>rest. snd (snd (run (sampleSession [succeedingProvider] (NewName ''bar'') sampleEditor) False))
     = [InputVisibleSet True, GetInput sampleRange ''fooBarX'' 2 4] @ rest"
proof -
  let ?env = "sampleSession [succeedingProvider] (NewName ''bar'') sampleEditor"
  let ?loc = "\<lparr>loc_range = sampleRange, loc_text = ''fooBarX''\<rparr>"
  have 1: "hasProvider (sessionSkeleton ?env)"
    by (simp add: sessionSkeleton_def run_defs session_defs)
  have 2: "resolveRenameLocation (sessionSkeleton ?env) = (Inr (Some ?loc), [])"
    by (simp add: sessionSkeleton_def run_defs session_defs sample_defs)
  have 3: "getSelection (editorAfterLocate ?env)
             = \<lparr>startLineNumber = 1, startColumn = 7, endLineNumber = 1, endColumn = 9\<rparr>"
    by (simp add: session_defs)
  show ?thesis
    using input_prefill[OF 1 2, of False]
    by (simp add: 3 sampleRange_def Range_isEmpty_def Range_spansMultipleLines_def
          Range_containsRange_def)
qed

text \<open>
  C4. Take a session in which the user confirms a name and \<open>provideRenameEdits\<close>
  returns a result with a reject reason. If one of the four facets of the editor state
  (position, version of the content, selection, scroll) differs between the
  confirmation of the input and the completion of the providers, the reason is given as
  an informational notification; if none differs, it is shown as a message at the
  position the cursor has then. It is the only thing the user is told, the promise is
  fulfilled, and no edit is applied.
\<close>

theorem rejection_routing:
  assumes "hasProvider (sessionSkeleton env)"
    and "resolveRenameLocation (sessionSkeleton env) = (Inr (Some loc), lcalls)"
    and "getInput env (loc_range loc) (loc_text loc) (fst (prefill env loc)) (snd (prefill env loc))
           = Inr (NewName newName)"
    and "fst (provideRenameEdits (sessionSkeleton env) newName 0 []
                (getStartPosition (Range_lift (loc_range loc)))) = Inr result"
    and "truthy (rejectReason result)"
  shows "fst (run env visible) = Inr ()
         \<and> filter notice (snd (snd (run env visible))) =
             [if facetsChanged (editorAfterInput env) (editorAfterResolve env)
              then NotifyInfo (the (rejectReason result))
              else ShowMessage (TextMessage (the (rejectReason result)))
                     (getPosition (editorAfterResolve env))]
         \<and> filter applies (snd (snd (run env visible))) = []"
proof -
  obtain calls where pr:
    "provideRenameEdits (sessionSkeleton env) newName 0 []
       (getStartPosition (Range_lift (loc_range loc))) = (Inr result, calls)"
    using assms(4) by (cases "provideRenameEdits (sessionSkeleton env) newName 0 []
       (getStartPosition (Range_lift (loc_range loc)))") simp
  have c: "filter notice calls = []" "filter applies calls = []"
    using filter_provider_calls(1,2)[of "sessionSkeleton env" newName 0 "[]"
        "getStartPosition (Range_lift (loc_range loc))"] pr by simp_all
  have l: "filter notice lcalls = []" "filter applies lcalls = []"
    using filter_locate_calls(1,2)[of "sessionSkeleton env"] assms(2) by simp_all
  show ?thesis
    using assms(3,5) pr c l
    by (simp add: run_reaches_input[OF assms(1,2)] onInput_def onRenameResult_def
          validate_iff Let_def)
qed

theorem rejection_routing_witness:
  "filter notice (snd (snd (run
      (sampleSession [rejectingProvider ''a''] (NewName ''bar'') editedEditor) False)))
     = [NotifyInfo ''a'']
   \<and> filter notice (snd (snd (run
      (sampleSession [rejectingProvider ''a''] (NewName ''bar'') sampleEditor) False)))
     = [ShowMessage (TextMessage ''a'') samplePosition]
   \<and> filter applies (snd (snd (run
      (sampleSession [rejectingProvider ''a''] (NewName ''bar'') editedEditor) False))) = []"
proof -
  let ?loc = "\<lparr>loc_range = sampleRange, loc_text = ''fooBarX''\<rparr>"
  let ?res = "\<lparr>edits = None, rejectReason = Some ''a''\<rparr>"
  have 1: "hasProvider (sessionSkeleton (sampleSession [rejectingProvider ''a''] (NewName ''bar'') ed))"
    for ed by (simp add: sessionSkeleton_def run_defs session_defs)
  have 2: "resolveRenameLocation
             (sessionSkeleton (sampleSession [rejectingProvider ''a''] (NewName ''bar'') ed))
           = (Inr (Some ?loc), [])" for ed
    by (simp add: sessionSkeleton_def run_defs session_defs sample_defs)
  have 3: "getInput (sampleSession [rejectingProvider ''a''] (NewName ''bar'') ed)
             (loc_range ?loc) (loc_text ?loc)
             (fst (prefill (sampleSession [rejectingProvider ''a''] (NewName ''bar'') ed) ?loc))
             (snd (prefill (sampleSession [rejectingProvider ''a''] (NewName ''bar'') ed) ?loc))
           = Inr (NewName ''bar'')" for ed
    by (simp add: sampleSession_def)
  have 4: "fst (provideRenameEdits
             (sessionSkeleton (sampleSession [rejectingProvider ''a''] (NewName ''bar'') ed))
             ''bar'' 0 [] (getStartPosition (Range_lift (loc_range ?loc)))) = Inr ?res" for ed
    by (simp add: provideRenameEdits.simps sessionSkeleton_def run_defs session_defs sample_defs
          truthy_def)
  have 5: "truthy (rejectReason ?res)" by (simp add: truthy_def)
  have 6: "facetsChanged
             (editorAfterInput (sampleSession [rejectingProvider ''a''] (NewName ''bar'') editedEditor))
             (editorAfterResolve (sampleSession [rejectingProvider ''a''] (NewName ''bar'') editedEditor))"
    by (simp add: facetsChanged_def session_defs sample_defs)
  have 7: "\<not> facetsChanged
             (editorAfterInput (sampleSession [rejectingProvider ''a''] (NewName ''bar'') sampleEditor))
             (editorAfterResolve (sampleSession [rejectingProvider ''a''] (NewName ''bar'') sampleEditor))"
    by (simp add: facetsChanged_def session_defs sample_defs)
  have 8: "getPosition (editorAfterResolve
             (sampleSession [rejectingProvider ''a''] (NewName ''bar'') sampleEditor)) = samplePosition"
    by (simp add: session_defs)
  show ?thesis
    using rejection_routing[OF 1 2 3 4 5, of editedEditor False]
      rejection_routing[OF 1 2 3 4 5, of sampleEditor False] 6 7 8
    by simp
qed

text \<open>
  The context key along the events of a session.
\<close>

lemma flagAfter_quiet: "filter inputEvent pre = [] \<Longrightarrow> flagAfter v (pre @ es) = flagAfter v es"
proof (induction pre arbitrary: v)
  case Nil
  then show ?case by simp
next
  case (Cons a pre)
  then show ?case by (cases a) (simp_all split: if_splits)
qed

lemma not_awaiting_quiet:
  "filter inputEvent es = [] \<Longrightarrow> \<not> awaitingInput (xs @ es) \<or> es = []"
proof (cases "es = []")
  case True
  then show ?thesis by simp
next
  case False
  assume q: "filter inputEvent es = []"
  have "last es \<in> set es" using False by simp
  then have "\<not> inputEvent (last es)" using q by (auto simp: filter_empty_conv)
  then show ?thesis using False
    by (cases "last es") (simp_all add: awaitingInput_def)
qed

lemma bracket_prefixes:
  assumes pre: "filter inputEvent pre = []" and post: "filter inputEvent post = []"
  shows "flagAfter False (take n (pre @ [InputVisibleSet True, GetInput r t s e, InputVisibleReset] @ post))
         = awaitingInput (take n (pre @ [InputVisibleSet True, GetInput r t s e, InputVisibleReset] @ post))"
proof -
  let ?S = "InputVisibleSet True" and ?G = "GetInput r t s e" and ?R = "InputVisibleReset"
  consider (a) "n \<le> length pre" | (b) "n = length pre + 1" | (c) "n = length pre + 2"
    | (d) "n \<ge> length pre + 3" by linarith
  then show ?thesis
  proof cases
    case a
    have q: "filter inputEvent (take n pre) = []"
      using pre by (auto simp: filter_empty_conv dest: in_set_takeD)
    have 1: "flagAfter False (take n pre) = False"
      using flagAfter_quiet[OF q, of False "[]"] by simp
    have 2: "\<not> awaitingInput (take n pre)"
      using not_awaiting_quiet[OF q, of "[]"] by (auto simp: awaitingInput_def)
    show ?thesis using a 1 2 by simp
  next
    case b
    have 1: "flagAfter False (pre @ [?S]) = True" using flagAfter_quiet[OF pre] by simp
    show ?thesis using b 1 by (simp add: awaitingInput_def)
  next
    case c
    have 1: "flagAfter False (pre @ [?S, ?G]) = True" using flagAfter_quiet[OF pre] by simp
    show ?thesis using c 1 by (simp add: awaitingInput_def)
  next
    case d
    then obtain m where "n = length pre + 3 + m" using le_Suc_ex by blast
    then have m: "n = length pre + Suc (Suc (Suc m))" by simp
    have q: "filter inputEvent (take m post) = []"
      using post by (auto simp: filter_empty_conv dest: in_set_takeD)
    have tk: "take n (pre @ [?S, ?G, ?R] @ post) = (pre @ [?S, ?G]) @ ([?R] @ take m post)"
      using m by (simp add: numeral_3_eq_3)
    have 1: "flagAfter False ((pre @ [?S, ?G]) @ ([?R] @ take m post)) = False"
      using flagAfter_quiet[OF pre, of False "[?S, ?G, ?R] @ take m post"]
        flagAfter_quiet[OF q, of False "[]"] by simp
    have 2: "\<not> awaitingInput ((pre @ [?S, ?G]) @ ([?R] @ take m post))"
    proof (cases "take m post = []")
      case True
      then show ?thesis by (simp add: awaitingInput_def)
    next
      case False
      then show ?thesis
        using not_awaiting_quiet[OF q, of "pre @ [?S, ?G, ?R]"] by simp
    qed
    show ?thesis using 1 2 unfolding tk by simp
  qed
qed

lemma quiet_prefixes:
  assumes q: "filter inputEvent es = []"
  shows "flagAfter False (take n es) = awaitingInput (take n es)"
proof -
  have q': "filter inputEvent (take n es) = []"
    using q by (auto simp: filter_empty_conv dest: in_set_takeD)
  have 1: "flagAfter False (take n es) = False"
    using flagAfter_quiet[OF q', of False "[]"] by simp
  have 2: "\<not> awaitingInput (take n es)"
    using not_awaiting_quiet[OF q', of "[]"] by (auto simp: awaitingInput_def)
  show ?thesis using 1 2 by simp
qed

lemma onRenameResult_quiet:
  "filter inputEvent (snd (onRenameResult env loc newName state result)) = []"
  by (simp add: onRenameResult_def split: apply_result.splits)

lemma onInput_shape:
  "\<exists>out post. onInput env sk loc v answer = (out, False, InputVisibleReset # post)
      \<and> filter inputEvent post = []"
proof (cases answer)
  case (NewName n)
  obtain r calls where pr: "provideRenameEdits sk n 0 [] (getStartPosition (Range_lift (loc_range loc))) = (r, calls)"
    by (cases "provideRenameEdits sk n 0 [] (getStartPosition (Range_lift (loc_range loc)))")
  have c: "filter inputEvent calls = []"
    using filter_provider_calls(3)[of sk n 0 "[]" "getStartPosition (Range_lift (loc_range loc))"] pr
    by simp
  show ?thesis
  proof (cases r)
    case (Inl err)
    then show ?thesis using NewName pr c
      by (simp add: onInput_def contextKeyReset_def)
  next
    case (Inr result)
    obtain out evs where orr: "onRenameResult env loc n (newEditorState (editorAfterInput env)) result = (out, evs)"
      by (cases "onRenameResult env loc n (newEditorState (editorAfterInput env)) result")
    have e: "filter inputEvent evs = []"
      using onRenameResult_quiet[of env loc n "newEditorState (editorAfterInput env)" result] orr by simp
    show ?thesis using NewName pr c Inr orr e
      by (simp add: onInput_def contextKeyReset_def)
  qed
next
  case (FocusFlag b)
  then show ?thesis by (simp add: onInput_def contextKeyReset_def)
next
  case (InputFailed err)
  then show ?thesis by (simp add: onInput_def contextKeyReset_def)
qed

lemma run_shape:
  "(fst (snd (run env visible)) = visible \<and> filter inputEvent (snd (snd (run env visible))) = [])
   \<or> (\<exists>pre r t s e post.
         fst (snd (run env visible)) = False
         \<and> snd (snd (run env visible))
             = pre @ [InputVisibleSet True, GetInput r t s e, InputVisibleReset] @ post
         \<and> filter inputEvent pre = [] \<and> filter inputEvent post = [])
   \<or> (\<exists>pre r t s e err.
         getInput env r t s e = Inl err
         \<and> fst (run env visible) = Inl err
         \<and> fst (snd (run env visible)) = True
         \<and> snd (snd (run env visible)) = pre @ [InputVisibleSet True, GetInput r t s e]
         \<and> filter inputEvent pre = [])"
proof (cases "hasProvider (sessionSkeleton env)")
  case False
  then show ?thesis by (simp add: run_def sessionSkeleton_def)
next
  case True
  obtain res lcalls where rl: "resolveRenameLocation (sessionSkeleton env) = (res, lcalls)"
    by (cases "resolveRenameLocation (sessionSkeleton env)")
  have lq: "filter inputEvent lcalls = []"
    using filter_locate_calls(3)[of "sessionSkeleton env"] rl by simp
  show ?thesis
  proof (cases res)
    case (Inl e)
    then show ?thesis using True rl lq
      by (simp add: run_def sessionSkeleton_def Let_def)
  next
    case (Inr lo)
    show ?thesis
    proof (cases lo)
      case None
      then show ?thesis using True rl lq Inr
        by (simp add: run_def sessionSkeleton_def Let_def)
    next
      case (Some loc)
      let ?call = "getInput env (loc_range loc) (loc_text loc)
                     (fst (prefill env loc)) (snd (prefill env loc))"
      have rl': "resolveRenameLocation (sessionSkeleton env) = (Inr (Some loc), lcalls)"
        using rl Inr Some by simp
      show ?thesis
      proof (cases ?call)
        case thrown: (Inl err)
        have "fst (run env visible) = Inl err
           \<and> fst (snd (run env visible)) = True
           \<and> snd (snd (run env visible))
               = lcalls @ [InputVisibleSet True, GetInput (loc_range loc) (loc_text loc)
                       (fst (prefill env loc)) (snd (prefill env loc))]"
          using thrown by (simp add: run_reaches_input[OF True rl'])
        then show ?thesis using lq thrown by blast
      next
        case answered: (Inr answer)
        obtain out post where oi:
          "onInput env (sessionSkeleton env) loc True answer
             = (out, False, InputVisibleReset # post)"
          and pq: "filter inputEvent post = []"
          using onInput_shape[of env "sessionSkeleton env" loc True answer] by blast
        have "fst (snd (run env visible)) = False
           \<and> snd (snd (run env visible))
               = lcalls @ [InputVisibleSet True, GetInput (loc_range loc) (loc_text loc)
                       (fst (prefill env loc)) (snd (prefill env loc)), InputVisibleReset] @ post"
          using oi answered by (simp add: run_reaches_input[OF True rl'])
        then show ?thesis using lq pq by blast
      qed
    qed
  qed
qed

lemma run_shape_answered:
  assumes "\<forall>r t s e. \<exists>answer. getInput env r t s e = Inr answer"
  shows "(fst (snd (run env visible)) = visible
            \<and> filter inputEvent (snd (snd (run env visible))) = [])
   \<or> (\<exists>pre r t s e post.
         fst (snd (run env visible)) = False
         \<and> snd (snd (run env visible))
             = pre @ [InputVisibleSet True, GetInput r t s e, InputVisibleReset] @ post
         \<and> filter inputEvent pre = [] \<and> filter inputEvent post = [])"
proof -
  have "\<not> (\<exists>pre r t s e err.
         getInput env r t s e = Inl err
         \<and> fst (run env visible) = Inl err
         \<and> fst (snd (run env visible)) = True
         \<and> snd (snd (run env visible)) = pre @ [InputVisibleSet True, GetInput r t s e]
         \<and> filter inputEvent pre = [])"
  proof
    assume "\<exists>pre r t s e err.
         getInput env r t s e = Inl err
         \<and> fst (run env visible) = Inl err
         \<and> fst (snd (run env visible)) = True
         \<and> snd (snd (run env visible)) = pre @ [InputVisibleSet True, GetInput r t s e]
         \<and> filter inputEvent pre = []"
    then obtain r t s e err where "getInput env r t s e = Inl err" by blast
    moreover obtain answer where "getInput env r t s e = Inr answer" using assms by blast
    ultimately show False by simp
  qed
  then show ?thesis using run_shape[of env visible] by blast
qed

text \<open>
  Whenever the call of the input widget returns its promise, the context key is reset
  when that promise is settled, be it with a name, with a cancellation or with an
  error: a session that starts with the key false ends with the key false, the key is
  true exactly while the session awaits the input, and nothing but the one setting and
  the one reset around the call of the widget touches the key.
\<close>

lemma flag_reset_when_widget_answers:
  assumes answers: "\<forall>r t s e. \<exists>answer. getInput env r t s e = Inr answer"
  shows "fst (snd (run env False)) = False
   \<and> fst (snd (run env visible)) = flagAfter visible (snd (snd (run env visible)))
   \<and> (\<forall>n. flagAfter False (take n (snd (snd (run env False))))
            = awaitingInput (take n (snd (snd (run env False)))))
   \<and> (filter inputEvent (snd (snd (run env visible))) = []
      \<or> (\<exists>pre r t s e post.
            snd (snd (run env visible))
              = pre @ [InputVisibleSet True, GetInput r t s e, InputVisibleReset] @ post
            \<and> filter inputEvent pre = [] \<and> filter inputEvent post = []))"
proof -
  have 1: "fst (snd (run env False)) = False"
    using run_shape_answered[OF answers, of False] by auto
  have 2: "fst (snd (run env visible)) = flagAfter visible (snd (snd (run env visible)))"
    using run_shape_answered[OF answers, of visible]
  proof
    assume a: "fst (snd (run env visible)) = visible
                 \<and> filter inputEvent (snd (snd (run env visible))) = []"
    then show ?thesis
      using flagAfter_quiet[of "snd (snd (run env visible))" visible "[]"] by simp
  next
    assume "\<exists>pre r t s e post.
         fst (snd (run env visible)) = False
         \<and> snd (snd (run env visible))
             = pre @ [InputVisibleSet True, GetInput r t s e, InputVisibleReset] @ post
         \<and> filter inputEvent pre = [] \<and> filter inputEvent post = []"
    then obtain pre r t s e post where
      f: "fst (snd (run env visible)) = False"
      and ev: "snd (snd (run env visible))
             = pre @ [InputVisibleSet True, GetInput r t s e, InputVisibleReset] @ post"
      and pre: "filter inputEvent pre = []" and post: "filter inputEvent post = []"
      by blast
    have "flagAfter visible (pre @ [InputVisibleSet True, GetInput r t s e, InputVisibleReset] @ post)
            = False"
      using flagAfter_quiet[OF pre, of visible
              "[InputVisibleSet True, GetInput r t s e, InputVisibleReset] @ post"]
        flagAfter_quiet[OF post, of False "[]"] by simp
    then show ?thesis using f ev by simp
  qed
  have 3: "flagAfter False (take n (snd (snd (run env False))))
            = awaitingInput (take n (snd (snd (run env False))))" for n
    using run_shape_answered[OF answers, of False]
  proof
    assume "fst (snd (run env False)) = False
              \<and> filter inputEvent (snd (snd (run env False))) = []"
    then show ?thesis using quiet_prefixes by blast
  next
    assume "\<exists>pre r t s e post.
         fst (snd (run env False)) = False
         \<and> snd (snd (run env False))
             = pre @ [InputVisibleSet True, GetInput r t s e, InputVisibleReset] @ post
         \<and> filter inputEvent pre = [] \<and> filter inputEvent post = []"
    then obtain pre r t s e post where
      ev: "snd (snd (run env False))
             = pre @ [InputVisibleSet True, GetInput r t s e, InputVisibleReset] @ post"
      and pre: "filter inputEvent pre = []" and post: "filter inputEvent post = []"
      by blast
    show ?thesis unfolding ev by (rule bracket_prefixes[OF pre post])
  qed
  have 4: "filter inputEvent (snd (snd (run env visible))) = []
      \<or> (\<exists>pre r t s e post.
            snd (snd (run env visible))
              = pre @ [InputVisibleSet True, GetInput r t s e, InputVisibleReset] @ post
            \<and> filter inputEvent pre = [] \<and> filter inputEvent post = [])"
    using run_shape_answered[OF answers, of visible] by blast
  show ?thesis using 1 2 3 4 by blast
qed

text \<open>
  C5 (the code does otherwise). The context key is to be true only while the session
  awaits the input and false after every end of a session, the error of the input
  widget included. \<open>run\<close> resets the key in the two callbacks on the promise of the
  widget only. In the first session below the call of \<open>getInput\<close> itself throws: the
  promise of \<open>run\<close> is rejected, the session is over, and the key is still true. In
  the second session the widget returns a promise that is rejected with the same
  error: there the key is reset.
\<close>

theorem run_widget_throw_keeps_flag:
  "run (throwingWidgetSession [succeedingProvider] (Thrown ''boom'')) False =
     (Inl (Thrown ''boom''), True,
      [InputVisibleSet True, GetInput sampleRange ''fooBarX'' 2 4])
   \<and> run (sampleSession [succeedingProvider] (InputFailed (Thrown ''boom'')) sampleEditor) False =
     (Inl (Thrown ''boom''), False,
      [InputVisibleSet True, GetInput sampleRange ''fooBarX'' 2 4, InputVisibleReset])"
  by (simp add: run_defs session_defs throwingWidgetSession_def sample_defs)

end
